theory Spec2Isabelle
  imports Main "HOL-Library.Word" "HOL-Library.Signed_Division"
begin

section \<open>Data model of \<open>server/filesystem.go\<close>\<close>

text \<open>
  Go's \<open>int64\<close> is a 64-bit word read in two's complement: \<open>+\<close> wraps, comparison is
  the signed one (\<open>\<le>s\<close>), and \<open>/\<close> truncates towards zero.
\<close>

type_synonym int64 = "64 word"

definition int64_div :: "int64 \<Rightarrow> int64 \<Rightarrow> int64" where
  "int64_div a b = word_of_int (sint a sdiv sint b)"

text \<open>
  The errors a call can return: the package's own \<open>InvalidPathResolution\<close>, and the
  errors of the operating system that \<open>filepath.EvalSymlinks\<close> and \<open>ioutil.ReadDir\<close>
  hand back. \<open>os.IsNotExist\<close> recognises the second one.
\<close>

datatype error = InvalidPathResolution | ErrNotExist | ErrPermission | ErrInvalid

definition os_IsNotExist :: "error \<Rightarrow> bool" where
  "os_IsNotExist e = (e = ErrNotExist)"

text \<open>
  Modelled from the spec: the server record behind \<open>fs.Server\<close>, whose declaration is
  not part of the sources. The code reads the identifier \<open>Uuid\<close>, used verbatim as a
  path segment, and the disk quota \<open>Build.DiskSpace\<close> in mebibytes, 0 or less meaning
  unlimited; the quota is compared with an \<open>int64\<close> and so is one.
\<close>

record BuildSettings =
  DiskSpace :: int64

record Server =
  Uuid :: string
  Build :: BuildSettings

record Filesystem =
  Root :: string
  Server :: Server

text \<open>What \<open>ioutil.ReadDir\<close> reports for one directory entry (\<open>os.FileInfo\<close>).\<close>

record FileInfo =
  Name :: string
  IsDir :: bool
  Size :: int64

text \<open>
  The operating system is a parameter of every operation: \<open>EvalSymlinks\<close> gives the
  real path of an existing path or an error (Go returns the empty string next to the
  error), \<open>ReadDir\<close> lists a directory or fails.
\<close>

record OS =
  EvalSymlinks :: "string \<Rightarrow> error + string"
  ReadDir :: "string \<Rightarrow> error + FileInfo list"

section \<open>The string and path functions of Go's standard library\<close>

definition strings_HasPrefix :: "string \<Rightarrow> string \<Rightarrow> bool" where
  "strings_HasPrefix s pre = (take (length pre) s = pre)"

text \<open>\<open>strings.Split\<close> for a separator of one character; both call sites pass \<open>"/"\<close>.\<close>

fun strings_Split :: "string \<Rightarrow> char \<Rightarrow> string list" where
  "strings_Split [] sep = [[]]"
| "strings_Split (c # cs) sep =
     (if c = sep then [] # strings_Split cs sep
      else (case strings_Split cs sep of
              [] \<Rightarrow> [[c]]
            | p # ps \<Rightarrow> (c # p) # ps))"

fun strings_Join :: "string list \<Rightarrow> string \<Rightarrow> string" where
  "strings_Join [] sep = []"
| "strings_Join [x] sep = x"
| "strings_Join (x # y # ys) sep = x @ sep @ strings_Join (y # ys) sep"

text \<open>
  \<open>filepath.Clean\<close> on a Unix path: empty and \<open>.\<close> elements are dropped, \<open>..\<close> removes
  the element before it, \<open>..\<close> at the top of a rooted path is dropped, and the empty
  result is \<open>.\<close>. The elements kept so far are held in reverse.
\<close>

fun clean_elems :: "bool \<Rightarrow> string list \<Rightarrow> string list \<Rightarrow> string list" where
  "clean_elems rooted stk [] = rev stk"
| "clean_elems rooted stk (c # cs) =
     (if c = [] \<or> c = ''.'' then clean_elems rooted stk cs
      else if c = ''..'' then
        (case stk of
           [] \<Rightarrow> if rooted then clean_elems rooted [] cs else clean_elems rooted [''..''] cs
         | t # ts \<Rightarrow> if t = ''..'' then clean_elems rooted (''..'' # stk) cs
                     else clean_elems rooted ts cs)
      else clean_elems rooted (c # stk) cs)"

definition filepath_Clean :: "string \<Rightarrow> string" where
  "filepath_Clean path =
     (if path = [] then ''.''
      else let rooted = (hd path = CHR ''/'');
               out = strings_Join (clean_elems rooted [] (strings_Split path CHR ''/'')) ''/''
           in if rooted then CHR ''/'' # out
              else if out = [] then ''.'' else out)"

text \<open>\<open>filepath.Join\<close> skips leading empty elements and cleans the rest joined by \<open>/\<close>.\<close>

definition filepath_Join :: "string list \<Rightarrow> string" where
  "filepath_Join elem =
     (case dropWhile (\<lambda>e. e = []) elem of
        [] \<Rightarrow> []
      | es \<Rightarrow> filepath_Clean (strings_Join es ''/''))"

text \<open>\<open>filepath.Dir\<close>: everything up to the last separator, cleaned.\<close>

definition filepath_Dir :: "string \<Rightarrow> string" where
  "filepath_Dir path = filepath_Clean (rev (dropWhile (\<lambda>c. c \<noteq> CHR ''/'') (rev path)))"

section \<open>Path resolution\<close>

definition Path :: "Filesystem \<Rightarrow> string" where
  "Path fs = filepath_Join [Root fs, Uuid (Server fs)]"

text \<open>
  The loop of \<open>SafePath\<close> over \<open>k := range parts\<close>; \<open>try_path parts k\<close> is the
  candidate \<open>strings.Join(parts[:(len(parts) - k)], "/")\<close> of round \<open>k\<close>. The loop
  returns the value of \<open>nonExistentPathResolution\<close> when it ends: empty when it breaks
  on a candidate outside the root's string span or runs out of candidates.
\<close>

definition try_path :: "string list \<Rightarrow> nat \<Rightarrow> string" where
  "try_path parts k = strings_Join (take (length parts - k) parts) ''/''"

fun walk_up :: "OS \<Rightarrow> string \<Rightarrow> string list \<Rightarrow> nat list \<Rightarrow> string" where
  "walk_up os root parts [] = []"
| "walk_up os root parts (k # ks) =
     (let try = try_path parts k
      in if \<not> strings_HasPrefix try root then []
         else (case EvalSymlinks os try of
                 Inr t \<Rightarrow> t
               | Inl err \<Rightarrow> walk_up os root parts ks))"

definition SafePath :: "OS \<Rightarrow> Filesystem \<Rightarrow> string \<Rightarrow> error + string" where
  "SafePath os fs p =
     (let r = filepath_Clean (filepath_Join [Path fs, p])
      in case EvalSymlinks os r of
           Inl err \<Rightarrow>
             if \<not> os_IsNotExist err then Inl err
             else
               (let parts = strings_Split (filepath_Dir r) CHR ''/'';
                    nonExistentPathResolution = walk_up os (Path fs) parts [0..<length parts]
                in if nonExistentPathResolution \<noteq> [] then
                     (if \<not> strings_HasPrefix nonExistentPathResolution (Path fs)
                      then Inl InvalidPathResolution
                      else Inr r)
                   else if strings_HasPrefix [] (Path fs) then Inr []
                   else Inl InvalidPathResolution)
         | Inr p' \<Rightarrow>
             if strings_HasPrefix p' (Path fs) then Inr p'
             else Inl InvalidPathResolution)"

text \<open>
  Containment by path segments: \<open>t\<close> is the root or lies below it, the root being
  followed by a separator. This is what "inside the confined root" means; the code
  tests the string prefix alone.
\<close>

definition is_descendant :: "string \<Rightarrow> string \<Rightarrow> bool" where
  "is_descendant root t =
     (t = root \<or> strings_HasPrefix t (if root = ''/'' then root else root @ ''/''))"

section \<open>Directory size\<close>

text \<open>
  \<open>DirectorySize\<close> keeps its total in the local variable \<open>size\<close>. Its loop over the
  listing adds the size of each file to it (\<open>size += f.Size()\<close>) and starts one
  goroutine for each subdirectory; the goroutine walks the subdirectory and then adds the
  result to the same variable (\<open>size += s\<close>). Neither addition is guarded by a lock or
  an atomic operation: each is a read of \<open>size\<close> followed by a write of the sum, and
  the steps of the loop and of the goroutines started so far interleave. The function
  returns \<open>size\<close> after \<open>wg.Wait()\<close>, when every goroutine has finished.

  What one entry of the listing makes the loop do: add the size of a file, or start a
  goroutine that will add \<open>s\<close>, the result of walking the subdirectory (0 when that walk
  fails, since \<open>s, _ := fs.DirectorySize(p)\<close> drops the error).
\<close>

datatype task = FileAdd int64 | Spawn int64

text \<open>
  A goroutine that has its \<open>s\<close> and has not read \<open>size\<close> yet, one that has read the
  value \<open>v\<close> and has not written \<open>v + s\<close> yet, and one that has finished.
\<close>

datatype goroutine = Adding int64 | Loaded int64 int64 | Finished

text \<open>
  One call in progress: the value of \<open>size\<close>, the value the loop has read for the file
  it is at (if it is between the read and the write), the entries left to the loop, and
  the goroutines in the order they were started.
\<close>

type_synonym level = "int64 \<times> int64 option \<times> task list \<times> goroutine list"

fun main_step :: "level \<Rightarrow> level" where
  "main_step (sz, reg, [], gs) = (sz, reg, [], gs)"
| "main_step (sz, reg, Spawn s # todo, gs) = (sz, reg, todo, gs @ [Adding s])"
| "main_step (sz, None, FileAdd n # todo, gs) = (sz, Some sz, FileAdd n # todo, gs)"
| "main_step (sz, Some v, FileAdd n # todo, gs) = (v + n, None, todo, gs)"

fun go_step :: "nat \<Rightarrow> level \<Rightarrow> level" where
  "go_step i (sz, reg, todo, gs) =
     (if i < length gs then
        (case gs ! i of
           Adding s \<Rightarrow> (sz, reg, todo, gs[i := Loaded s sz])
         | Loaded s v \<Rightarrow> (v + s, reg, todo, gs[i := Finished])
         | Finished \<Rightarrow> (sz, reg, todo, gs))
      else (sz, reg, todo, gs))"

text \<open>
  One step of the thread chosen: 0 is the loop, \<open>i + 1\<close> the goroutine started as number
  \<open>i\<close>. A thread that has nothing to do, or a goroutine not started yet, leaves the state
  as it is.
\<close>

fun step :: "nat \<Rightarrow> level \<Rightarrow> level" where
  "step 0 lv = main_step lv"
| "step (Suc i) lv = go_step i lv"

text \<open>Running what is left without interruption: the loop first, then each goroutine.\<close>

fun finish_main :: "level \<Rightarrow> int64 \<times> goroutine list" where
  "finish_main (sz, reg, [], gs) = (sz, gs)"
| "finish_main (sz, reg, Spawn s # todo, gs) = finish_main (sz, reg, todo, gs @ [Adding s])"
| "finish_main (sz, None, FileAdd n # todo, gs) = finish_main (sz + n, None, todo, gs)"
| "finish_main (sz, Some v, FileAdd n # todo, gs) = finish_main (v + n, None, todo, gs)"

fun finish_gos :: "int64 \<Rightarrow> goroutine list \<Rightarrow> int64" where
  "finish_gos sz [] = sz"
| "finish_gos sz (Adding s # gs) = finish_gos (sz + s) gs"
| "finish_gos sz (Loaded s v # gs) = finish_gos (v + s) gs"
| "finish_gos sz (Finished # gs) = finish_gos sz gs"

text \<open>
  The value returned under a schedule: the threads step in the order the schedule names
  them, and what is left when the schedule ends runs without interruption. Every
  interleaving of the reads and writes is the run of some schedule.
\<close>

fun run_level :: "nat list \<Rightarrow> level \<Rightarrow> int64" where
  "run_level [] lv = (case finish_main lv of (sz, gs) \<Rightarrow> finish_gos sz gs)"
| "run_level (c # cs) lv = run_level cs (step c lv)"

text \<open>
  The schedule of a walk: the order of the steps at this level, and a schedule for the
  walk of each subdirectory, in the order of the listing (the empty schedule where none
  is given).
\<close>

datatype sched = Sched (choices: "nat list") (subs: "sched list")

definition first_sched :: "sched list \<Rightarrow> sched" where
  "first_sched scs = (case scs of [] \<Rightarrow> Sched [] [] | sc # _ \<Rightarrow> sc)"

text \<open>
  \<open>DirectorySize\<close> calls itself for every subdirectory, on the path that the operating
  system reports, so the recursion is bounded by fuel: \<open>None\<close> is a walk that has not
  returned within the fuel (\<open>wg.Wait()\<close> does not return before every goroutine has).
  \<open>collect\<close> turns the listing into the work of the loop; the walk of a subdirectory
  has a \<open>size\<close> of its own, so its result does not depend on the steps of this level.
\<close>

fun DirectorySize ::
    "nat \<Rightarrow> sched \<Rightarrow> OS \<Rightarrow> Filesystem \<Rightarrow> string \<Rightarrow> (error + int64) option"
  and collect ::
    "nat \<Rightarrow> sched list \<Rightarrow> OS \<Rightarrow> Filesystem \<Rightarrow> string \<Rightarrow> FileInfo list \<Rightarrow> task list option"
where
  "DirectorySize 0 sc os fs dir = None"
| "DirectorySize (Suc n) sc os fs dir =
     (case SafePath os fs dir of
        Inl err \<Rightarrow> Some (Inl err)
      | Inr cleaned \<Rightarrow>
          (case ReadDir os cleaned of
             Inl err \<Rightarrow> Some (Inl err)
           | Inr files \<Rightarrow>
               (case collect n (subs sc) os fs cleaned files of
                  None \<Rightarrow> None
                | Some todo \<Rightarrow> Some (Inr (run_level (choices sc) (0, None, todo, []))))))"
| "collect n scs os fs cleaned [] = Some []"
| "collect n scs os fs cleaned (f # files) =
     (if IsDir f then
        (case DirectorySize n (first_sched scs) os fs (filepath_Join [cleaned, Name f]) of
           None \<Rightarrow> None
         | Some (Inl err) \<Rightarrow> map_option ((#) (Spawn 0)) (collect n (tl scs) os fs cleaned files)
         | Some (Inr s) \<Rightarrow> map_option ((#) (Spawn s)) (collect n (tl scs) os fs cleaned files))
      else map_option ((#) (FileAdd (Size f))) (collect n scs os fs cleaned files))"

text \<open>Two predicates for the proofs: an entry that is a file, and a goroutine whose read,
  if it has made one, is of the current value of \<open>size\<close>.\<close>

fun is_file :: "task \<Rightarrow> bool" where
  "is_file (FileAdd n) = True"
| "is_file (Spawn s) = False"

definition settled :: "int64 \<Rightarrow> goroutine \<Rightarrow> bool" where
  "settled sz g = (case g of Adding s \<Rightarrow> True | Loaded s v \<Rightarrow> v = sz | Finished \<Rightarrow> True)"

section \<open>Quota check\<close>

text \<open>
  Modelled from the spec: the per-server key/value cache behind \<open>fs.Server.Cache()\<close>,
  whose code is not part of the sources. An entry holds the usage in bytes and the
  absolute time at which it expires (the time of the write plus the TTL); an entry
  past its expiry is treated as absent. Times are nanoseconds.
\<close>

type_synonym cache = "string \<rightharpoonup> (int64 \<times> nat)"

definition cache_Get :: "cache \<Rightarrow> nat \<Rightarrow> string \<Rightarrow> int64 option" where
  "cache_Get c now k =
     (case c k of
        None \<Rightarrow> None
      | Some (v, expiry) \<Rightarrow> if expiry < now then None else Some v)"

definition cache_Set :: "cache \<Rightarrow> nat \<Rightarrow> string \<Rightarrow> int64 \<Rightarrow> nat \<Rightarrow> cache" where
  "cache_Set c now k v ttl = c(k \<mapsto> (v, now + ttl))"

definition time_Minute :: nat where
  "time_Minute = 60 * 1000000000"

text \<open>
  What a call can change: the server's cache, and the warnings written to the log
  (message, server and error of each \<open>Warnw\<close>).
\<close>

record ServerState =
  cache :: cache
  warnings :: "(string \<times> string \<times> error) list"

text \<open>
  \<open>HasSpaceAvailable\<close> at time \<open>now\<close>, with the fuel and the schedule of the walk it
  may start. The \<open>size\<close> bound by
  \<open>if size, err := fs.DirectorySize("/")\<close> is a new variable of the \<open>if\<close> statement:
  it is what \<open>Set\<close> stores (here \<open>sz'\<close>), and the \<open>size\<close> of the \<open>return\<close> is the
  outer one (here \<open>sz\<close>).
\<close>

definition HasSpaceAvailable ::
  "nat \<Rightarrow> sched \<Rightarrow> OS \<Rightarrow> Filesystem \<Rightarrow> nat \<Rightarrow> ServerState \<Rightarrow> (bool \<times> ServerState) option"
where
  "HasSpaceAvailable fuel sc os fs now st =
     (let space = DiskSpace (Build (Server fs))
      in if space \<le>s 0 then Some (True, st)
         else
           (let sz = (case cache_Get (cache st) now ''disk_used'' of
                        Some x \<Rightarrow> x
                      | None \<Rightarrow> 0)
            in if sz = 0 then
                 (case DirectorySize fuel sc os fs ''/'' of
                    None \<Rightarrow> None
                  | Some (Inl err) \<Rightarrow>
                      Some (int64_div (int64_div sz 1024) 1024 \<le>s space,
                            st\<lparr>warnings := warnings st @
                               [(''failed to determine directory size'', Uuid (Server fs), err)]\<rparr>)
                  | Some (Inr sz') \<Rightarrow>
                      Some (int64_div (int64_div sz 1024) 1024 \<le>s space,
                            st\<lparr>cache := cache_Set (cache st) now ''disk_used'' sz'
                                            (time_Minute * 5)\<rparr>))
               else Some (int64_div (int64_div sz 1024) 1024 \<le>s space, st)))"

section \<open>Concrete file systems and servers\<close>

text \<open>
  An operating system given by two tables: the paths that exist, each with its real
  path, and the directories, each with its listing or the error of listing it. What is
  in neither table does not exist.
\<close>

definition os_of :: "(string \<times> string) list \<Rightarrow> (string \<times> (error + FileInfo list)) list \<Rightarrow> OS" where
  "os_of links dirs =
     \<lparr>EvalSymlinks = (\<lambda>p. case map_of links p of Some t \<Rightarrow> Inr t | None \<Rightarrow> Inl ErrNotExist),
      ReadDir = (\<lambda>p. case map_of dirs p of Some l \<Rightarrow> l | None \<Rightarrow> Inl ErrNotExist)\<rparr>"

text \<open>The server \<open>srv-1\<close> under the data root \<open>/data\<close>, with a quota of \<open>q\<close> MiB.\<close>

definition srv :: "int64 \<Rightarrow> Filesystem" where
  "srv q = \<lparr>Root = ''/data'', Server = \<lparr>Uuid = ''srv-1'', Build = \<lparr>DiskSpace = q\<rparr>\<rparr>\<rparr>"

text \<open>A server whose confined root is \<open>/\<close> itself.\<close>

definition srv_root :: "int64 \<Rightarrow> Filesystem" where
  "srv_root q = \<lparr>Root = ''/'', Server = \<lparr>Uuid = [], Build = \<lparr>DiskSpace = q\<rparr>\<rparr>\<rparr>"

text \<open>\<open>/data/srv-1\<close> next to an unrelated \<open>/data/srv-10\<close> that holds a file \<open>x\<close>; no links.\<close>

definition sibling_os :: OS where
  "sibling_os =
     os_of [(''/'', ''/''), (''/data'', ''/data''), (''/data/srv-1'', ''/data/srv-1''),
            (''/data/srv-10'', ''/data/srv-10''), (''/data/srv-10/x'', ''/data/srv-10/x'')]
           [(''/data/srv-1'', Inr [])]"

text \<open>
  \<open>/data/other\<close> and \<open>/data/srv-1/ln\<close> are symbolic links to the directory
  \<open>/data/srv-1/foo\<close>.
\<close>

definition link_os :: OS where
  "link_os =
     os_of [(''/'', ''/''), (''/data'', ''/data''), (''/data/srv-1'', ''/data/srv-1''),
            (''/data/srv-1/foo'', ''/data/srv-1/foo''), (''/data/other'', ''/data/srv-1/foo''),
            (''/data/srv-1/ln'', ''/data/srv-1/foo'')]
           [(''/data/srv-1'', Inr [\<lparr>Name = ''foo'', IsDir = True, Size = 4096\<rparr>,
                                  \<lparr>Name = ''ln'', IsDir = False, Size = 15\<rparr>]),
            (''/data/srv-1/foo'', Inr [])]"

text \<open>
  \<open>/data/srv-1\<close> holds \<open>f10\<close> (10 bytes) and the directory \<open>sub\<close>, which holds \<open>f20\<close>
  (20 bytes) and \<open>f30\<close> (30 bytes); no links.
\<close>

definition tree_os :: OS where
  "tree_os =
     os_of [(''/'', ''/''), (''/data'', ''/data''), (''/data/srv-1'', ''/data/srv-1''),
            (''/data/srv-1/f10'', ''/data/srv-1/f10''), (''/data/srv-1/sub'', ''/data/srv-1/sub''),
            (''/data/srv-1/sub/f20'', ''/data/srv-1/sub/f20''),
            (''/data/srv-1/sub/f30'', ''/data/srv-1/sub/f30'')]
           [(''/data/srv-1'', Inr [\<lparr>Name = ''f10'', IsDir = False, Size = 10\<rparr>,
                                  \<lparr>Name = ''sub'', IsDir = True, Size = 4096\<rparr>]),
            (''/data/srv-1/sub'', Inr [\<lparr>Name = ''f20'', IsDir = False, Size = 20\<rparr>,
                                      \<lparr>Name = ''f30'', IsDir = False, Size = 30\<rparr>])]"

text \<open>\<open>/data/srv-1\<close> holds one file of 3 MiB.\<close>

definition big_os :: OS where
  "big_os =
     os_of [(''/'', ''/''), (''/data'', ''/data''), (''/data/srv-1'', ''/data/srv-1''),
            (''/data/srv-1/big'', ''/data/srv-1/big'')]
           [(''/data/srv-1'', Inr [\<lparr>Name = ''big'', IsDir = False, Size = 3145728\<rparr>])]"

text \<open>\<open>/data/srv-1\<close> exists and listing it is refused.\<close>

definition denied_os :: OS where
  "denied_os =
     os_of [(''/'', ''/''), (''/data'', ''/data''), (''/data/srv-1'', ''/data/srv-1'')]
           [(''/data/srv-1'', Inl ErrPermission)]"

text \<open>
  Under \<open>/\<close>: \<open>a\<close> (10 bytes), the directory \<open>priv\<close> whose listing is refused, and the
  directory \<open>pub\<close> holding \<open>b\<close> (20 bytes).
\<close>

definition entry_a :: FileInfo where
  "entry_a = \<lparr>Name = ''a'', IsDir = False, Size = 10\<rparr>"

definition entry_priv :: FileInfo where
  "entry_priv = \<lparr>Name = ''priv'', IsDir = True, Size = 4096\<rparr>"

definition entry_pub :: FileInfo where
  "entry_pub = \<lparr>Name = ''pub'', IsDir = True, Size = 4096\<rparr>"

definition priv_os :: OS where
  "priv_os =
     os_of [(''/'', ''/''), (''/a'', ''/a''), (''/priv'', ''/priv''), (''/pub'', ''/pub''),
            (''/pub/b'', ''/pub/b'')]
           [(''/'', Inr [entry_a, entry_priv, entry_pub]),
            (''/priv'', Inl ErrPermission),
            (''/pub'', Inr [\<lparr>Name = ''b'', IsDir = False, Size = 20\<rparr>])]"

text \<open>
  Under \<open>/\<close>: the directories \<open>d1\<close> and \<open>d2\<close>, each holding one file of one byte.
\<close>

definition entry_d1 :: FileInfo where
  "entry_d1 = \<lparr>Name = ''d1'', IsDir = True, Size = 4096\<rparr>"

definition entry_d2 :: FileInfo where
  "entry_d2 = \<lparr>Name = ''d2'', IsDir = True, Size = 4096\<rparr>"

definition twin_os :: OS where
  "twin_os =
     os_of [(''/'', ''/''), (''/d1'', ''/d1''), (''/d1/x'', ''/d1/x''), (''/d2'', ''/d2''),
            (''/d2/y'', ''/d2/y'')]
           [(''/'', Inr [entry_d1, entry_d2]),
            (''/d1'', Inr [\<lparr>Name = ''x'', IsDir = False, Size = 1\<rparr>]),
            (''/d2'', Inr [\<lparr>Name = ''y'', IsDir = False, Size = 1\<rparr>])]"

text \<open>\<open>/data/srv-1\<close> holds the empty directory \<open>a\<close> and the file \<open>b\<close> of 10 bytes.\<close>

definition race_os :: OS where
  "race_os =
     os_of [(''/'', ''/''), (''/data'', ''/data''), (''/data/srv-1'', ''/data/srv-1''),
            (''/data/srv-1/a'', ''/data/srv-1/a''), (''/data/srv-1/b'', ''/data/srv-1/b'')]
           [(''/data/srv-1'', Inr [\<lparr>Name = ''a'', IsDir = True, Size = 4096\<rparr>,
                                  \<lparr>Name = ''b'', IsDir = False, Size = 10\<rparr>]),
            (''/data/srv-1/a'', Inr [])]"

text \<open>
  Schedules. \<open>sequential\<close>: nothing is interrupted. \<open>lost_update\<close>: the loop starts two
  goroutines, both read \<open>size\<close>, then both write. \<open>stale_write\<close>: the loop starts a
  goroutine, which reads \<open>size\<close>; the loop then reads and writes for a file; the
  goroutine writes last. \<open>stale_write_late\<close>: the loop adds a file and starts two
  goroutines; both read \<open>size\<close>, the second writes, the first writes last.
\<close>

definition sequential :: sched where
  "sequential = Sched [] []"

definition lost_update :: sched where
  "lost_update = Sched [0, 0, 1, 2, 1, 2] []"

definition stale_write :: sched where
  "stale_write = Sched [0, 1, 0, 0, 1] []"

definition stale_write_late :: sched where
  "stale_write_late = Sched [0, 0, 0, 0, 1, 2, 2, 1] []"

definition st_empty :: ServerState where
  "st_empty = \<lparr>cache = Map.empty, warnings = []\<rparr>"

definition st_zero :: ServerState where
  "st_zero = \<lparr>cache = [''disk_used'' \<mapsto> (0, 1000)], warnings = []\<rparr>"

definition st_rewalked :: ServerState where
  "st_rewalked = \<lparr>cache = [''disk_used'' \<mapsto> (10, 300000000500)], warnings = []\<rparr>"

definition st_recomputed :: ServerState where
  "st_recomputed = \<lparr>cache = [''disk_used'' \<mapsto> (10, 660000000500)], warnings = []\<rparr>"

definition st_big :: ServerState where
  "st_big = \<lparr>cache = [''disk_used'' \<mapsto> (3145728, 300000000000)], warnings = []\<rparr>"


definition st_warned :: ServerState where
  "st_warned = \<lparr>cache = Map.empty,
                 warnings = [(''failed to determine directory size'', ''srv-1'', ErrPermission)]\<rparr>"

section \<open>Evaluation\<close>

lemmas eval_simps = SafePath_def Path_def filepath_Join_def filepath_Clean_def filepath_Dir_def
  strings_HasPrefix_def os_IsNotExist_def try_path_def os_of_def srv_def first_sched_def
  Let_def

lemmas quota_simps = HasSpaceAvailable_def cache_Get_def cache_Set_def time_Minute_def
  int64_div_def word_sle_eq word_sless_alt signed_divide_int_def

section \<open>Shared lemmas\<close>

lemma Path_srv: "Path (srv q) = ''/data/srv-1''"
  by (simp add: eval_simps)

lemma is_descendant_HasPrefix: "is_descendant root t \<Longrightarrow> strings_HasPrefix t root"
proof -
  assume a: "is_descendant root t"
  have "take (length root) (take (length (root @ ''/'')) t) = take (length root) t"
    by (simp add: min_def)
  then have "strings_HasPrefix t (root @ ''/'') \<Longrightarrow> strings_HasPrefix t root"
    unfolding strings_HasPrefix_def by (metis append_eq_conv_conj)
  with a show ?thesis
    by (auto simp: is_descendant_def strings_HasPrefix_def split: if_splits)
qed

text \<open>Rounds of the loop that stay in the root's span and fail to resolve are passed over.\<close>

lemma walk_up_skip:
  "(\<And>j. j \<in> set xs \<Longrightarrow>
      strings_HasPrefix (try_path parts j) root \<and> (\<exists>e. EvalSymlinks os (try_path parts j) = Inl e))
   \<Longrightarrow> walk_up os root parts (xs @ ys) = walk_up os root parts ys"
proof (induction xs)
  case Nil
  then show ?case by simp
next
  case (Cons x xs)
  from Cons.prems [of x] obtain e where
    "strings_HasPrefix (try_path parts x) root" "EvalSymlinks os (try_path parts x) = Inl e"
    by auto
  moreover have "walk_up os root parts (xs @ ys) = walk_up os root parts ys"
    using Cons.IH Cons.prems by simp
  ultimately show ?case by (simp add: Let_def)
qed

lemma walk_up_found:
  assumes "k < length parts"
    and "\<forall>j<k. \<exists>e. EvalSymlinks os (try_path parts j) = Inl e"
    and "\<forall>j\<le>k. strings_HasPrefix (try_path parts j) root"
    and "EvalSymlinks os (try_path parts k) = Inr t"
  shows "walk_up os root parts [0..<length parts] = t"
proof -
  have split: "[0..<length parts] = [0..<k] @ (k # [Suc k..<length parts])"
    using assms(1)
    by (metis le0 less_imp_le_nat upt_add_eq_append upt_conv_Cons le_add_diff_inverse)
  have "walk_up os root parts ([0..<k] @ (k # [Suc k..<length parts]))
        = walk_up os root parts (k # [Suc k..<length parts])"
    using assms(2,3) by (intro walk_up_skip) auto
  also have "\<dots> = t"
    using assms(3,4) by (simp add: Let_def)
  finally show ?thesis using split by simp
qed



lemma not_unlimited: "0 <s q \<Longrightarrow> \<not> q \<le>s (0 :: int64)"
  by (simp add: word_sle_eq word_sless_alt)

text \<open>A non-zero cached size is compared as it is; nothing else is read or written.\<close>

lemma HasSpaceAvailable_hit:
  assumes "0 <s DiskSpace (Build (Server fs))"
    and "cache_Get (cache st) now ''disk_used'' = Some v" and "v \<noteq> 0"
  shows "HasSpaceAvailable fuel sc os fs now st =
           Some (int64_div (int64_div v 1024) 1024 \<le>s DiskSpace (Build (Server fs)), st)"
  using assms by (simp add: HasSpaceAvailable_def Let_def not_unlimited)

text \<open>
  Without a cached size, or with a cached size of 0, the directory is walked; the answer
  is \<open>True\<close> whatever the walk returns, because the \<open>return\<close> compares the outer
  \<open>size\<close>, which is still 0.
\<close>

lemma HasSpaceAvailable_walk:
  assumes "0 <s DiskSpace (Build (Server fs))"
    and "cache_Get (cache st) now ''disk_used'' = None
         \<or> cache_Get (cache st) now ''disk_used'' = Some 0"
  shows "HasSpaceAvailable fuel sc os fs now st =
     (case DirectorySize fuel sc os fs ''/'' of
        None \<Rightarrow> None
      | Some (Inl err) \<Rightarrow>
          Some (True, st\<lparr>warnings := warnings st @
                  [(''failed to determine directory size'', Uuid (Server fs), err)]\<rparr>)
      | Some (Inr s) \<Rightarrow>
          Some (True, st\<lparr>cache := cache_Set (cache st) now ''disk_used'' s (time_Minute * 5)\<rparr>))"
proof -
  have z: "int64_div (int64_div 0 1024) 1024 \<le>s DiskSpace (Build (Server fs))"
    using assms(1) by (simp add: int64_div_def word_sle_eq word_sless_alt)
  show ?thesis
    using assms z
    by (auto simp: HasSpaceAvailable_def Let_def not_unlimited split: option.splits sum.splits)
qed

subsection \<open>Levels without a race\<close>

text \<open>A step of the loop does not change what running the rest without interruption gives.\<close>

lemma finish_main_step: "finish_main (main_step lv) = finish_main lv"
  by (induction lv rule: main_step.induct) simp_all

lemma run_level_main_step: "run_level [] (main_step lv) = run_level [] lv"
  by (simp add: finish_main_step)

lemma main_step_files:
  "list_all is_file todo \<Longrightarrow>
   \<exists>sz' reg' todo'. main_step (sz, reg, todo, []) = (sz', reg', todo', []) \<and> list_all is_file todo'"
  by (cases "(sz, reg, todo, [] :: goroutine list)" rule: main_step.cases) auto

text \<open>A listing of files alone starts no goroutine, and every schedule gives the same total.\<close>

lemma run_level_files_only:
  "list_all is_file todo \<Longrightarrow>
   run_level cs (sz, reg, todo, []) = run_level [] (sz, reg, todo, [])"
proof (induction cs arbitrary: sz reg todo)
  case Nil
  show ?case by simp
next
  case (Cons c cs)
  show ?case
  proof (cases c)
    case 0
    from main_step_files [OF Cons.prems, of sz reg] obtain sz' reg' todo'
      where m: "main_step (sz, reg, todo, []) = (sz', reg', todo', [])"
        and f: "list_all is_file todo'" by blast
    have "run_level (c # cs) (sz, reg, todo, []) = run_level cs (sz', reg', todo', [])"
      using 0 m by simp
    also have "\<dots> = run_level [] (sz', reg', todo', [])"
      using Cons.IH [OF f] .
    also have "\<dots> = run_level [] (sz, reg, todo, [])"
      using run_level_main_step [of "(sz, reg, todo, [])"] m by simp
    finally show ?thesis .
  next
    case (Suc i)
    then show ?thesis using Cons.IH [OF Cons.prems] by simp
  qed
qed

text \<open>A single goroutine next to a loop that has ended has \<open>size\<close> to itself.\<close>

lemma run_level_single:
  "settled sz g \<Longrightarrow> run_level cs (sz, reg, [], [g]) = finish_gos sz [g]"
proof (induction cs arbitrary: sz g)
  case Nil
  show ?case by simp
next
  case (Cons c cs)
  note ok = Cons.prems and IH = Cons.IH
  show ?case
  proof (cases c)
    case 0
    then show ?thesis using IH [OF ok] by simp
  next
    case (Suc i)
    note c = Suc
    show ?thesis
    proof (cases i)
      case 0
      show ?thesis
      proof (cases g)
        case (Adding s)
        have "settled sz (Loaded s sz)" by (simp add: settled_def)
        from IH [OF this] show ?thesis using c 0 Adding by simp
      next
        case (Loaded s v)
        have "settled (v + s) Finished" by (simp add: settled_def)
        from IH [OF this] show ?thesis using c 0 Loaded ok by (simp add: settled_def)
      next
        case Finished
        then show ?thesis using c 0 IH [OF ok] by simp
      qed
    next
      case (Suc k)
      then show ?thesis using c IH [OF ok] by simp
    qed
  qed
qed

text \<open>
  A listing whose only subdirectory comes after every file: the goroutine starts when the
  loop has made its last write, and every schedule gives the same total.
\<close>

lemma run_level_last_spawn:
  "list_all is_file todo \<Longrightarrow>
   run_level cs (sz, reg, todo @ [Spawn s], []) = run_level [] (sz, reg, todo @ [Spawn s], [])"
proof (induction cs arbitrary: sz reg todo)
  case Nil
  show ?case by simp
next
  case (Cons c cs)
  note files = Cons.prems and IH = Cons.IH
  show ?case
  proof (cases c)
    case (Suc i)
    then show ?thesis using IH [OF files] by simp
  next
    case 0
    show ?thesis
    proof (cases todo)
      case Nil
      have "settled sz (Adding s)" by (simp add: settled_def)
      from run_level_single [OF this, of cs reg] show ?thesis using 0 Nil by simp
    next
      case (Cons t rest)
      then obtain n where t: "t = FileAdd n" and r: "list_all is_file rest"
        using files by (cases t) auto
      show ?thesis
      proof (cases reg)
        case None
        have "run_level (c # cs) (sz, reg, todo @ [Spawn s], [])
              = run_level cs (sz, Some sz, todo @ [Spawn s], [])"
          using 0 Cons t None by simp
        also have "\<dots> = run_level [] (sz, Some sz, todo @ [Spawn s], [])"
          using IH [OF files] .
        finally show ?thesis using Cons t None by simp
      next
        case (Some v)
        have "run_level (c # cs) (sz, reg, todo @ [Spawn s], [])
              = run_level cs (v + n, None, rest @ [Spawn s], [])"
          using 0 Cons t Some by simp
        also have "\<dots> = run_level [] (v + n, None, rest @ [Spawn s], [])"
          using IH [OF r] .
        finally show ?thesis using Cons t Some by simp
      qed
    qed
  qed
qed

subsection \<open>Walks that return\<close>

text \<open>The listing is turned into work as soon as the walk of every subdirectory returns.\<close>

lemma collect_returns:
  "(\<And>f sc. f \<in> set files \<Longrightarrow> IsDir f \<Longrightarrow>
       DirectorySize n sc os fs (filepath_Join [cleaned, Name f]) \<noteq> None)
   \<Longrightarrow> \<exists>todo. collect n scs os fs cleaned files = Some todo"
proof (induction files arbitrary: scs)
  case Nil
  then show ?case by simp
next
  case (Cons f files)
  have rest: "\<exists>todo. collect n scs' os fs cleaned files = Some todo" for scs'
    using Cons.IH Cons.prems by simp
  show ?case
  proof (cases "IsDir f")
    case True
    then obtain res where
      "DirectorySize n (first_sched scs) os fs (filepath_Join [cleaned, Name f]) = Some res"
      using Cons.prems [of f "first_sched scs"] by auto
    moreover obtain todo where "collect n (tl scs) os fs cleaned files = Some todo"
      using rest by blast
    ultimately show ?thesis using True by (cases res) simp_all
  next
    case False
    obtain todo where "collect n scs os fs cleaned files = Some todo"
      using rest by blast
    with False show ?thesis by simp
  qed
qed

text \<open>
  An error is returned exactly when \<open>SafePath\<close> on the directory or the listing of the
  resolved directory fails, under every schedule.
\<close>

lemma DirectorySize_error_surface:
  "DirectorySize (Suc n) sc os fs dir = Some (Inl e) \<longleftrightarrow>
      SafePath os fs dir = Inl e
      \<or> (\<exists>c. SafePath os fs dir = Inr c \<and> ReadDir os c = Inl e)"
  by (auto split: sum.splits option.splits)

text \<open>
  When the top-level listing succeeds and the walk of every subdirectory returns, with or
  without an error, the walk returns a total and no error.
\<close>

lemma DirectorySize_total_returned:
  assumes "SafePath os fs dir = Inr cleaned" and "ReadDir os cleaned = Inr files"
    and "\<And>g sc'. g \<in> set files \<Longrightarrow> IsDir g \<Longrightarrow>
           DirectorySize n sc' os fs (filepath_Join [cleaned, Name g]) \<noteq> None"
  shows "\<exists>total. DirectorySize (Suc n) sc os fs dir = Some (Inr total)"
proof -
  obtain todo where "collect n (subs sc) os fs cleaned files = Some todo"
    using collect_returns [of files n os fs cleaned "subs sc"] assms(3) by blast
  with assms(1,2) show ?thesis by simp
qed

text \<open>The two trees with at most one subdirectory, listed last, under every schedule.\<close>

lemma big_walk: "DirectorySize (Suc n) sc big_os (srv q) ''/'' = Some (Inr 3145728)"
proof -
  have "DirectorySize (Suc n) sc big_os (srv q) ''/''
        = Some (Inr (run_level (choices sc) (0, None, [FileAdd 3145728], [])))"
    by (simp add: eval_simps big_os_def)
  also have "run_level (choices sc) (0, None, [FileAdd 3145728], []) = 3145728"
    by (subst run_level_files_only) simp_all
  finally show ?thesis .
qed

lemma tree_walk: "DirectorySize (Suc (Suc n)) sc tree_os (srv q) ''/'' = Some (Inr 10)"
proof -
  have "DirectorySize (Suc (Suc n)) sc tree_os (srv q) ''/''
        = Some (Inr (run_level (choices sc) (0, None, [FileAdd 10] @ [Spawn 0], [])))"
    by (simp add: eval_simps tree_os_def)
  also have "run_level (choices sc) (0, None, [FileAdd 10] @ [Spawn 0], []) = 10"
    by (subst run_level_last_spawn) simp_all
  finally show ?thesis .
qed

section \<open>Properties of path resolution\<close>

text \<open>
  C1. A path whose normalized and resolved target lies outside the confined root is to be
  rejected with \<open>InvalidPathResolution\<close>; in particular, under the root \<open>/data/srv-1\<close>,
  a request resolving to \<open>/data/srv-10/x\<close> in the unrelated sibling \<open>/data/srv-10\<close>.
  The code tests \<open>strings.HasPrefix\<close> on the raw strings, and \<open>/data/srv-1\<close> is a prefix
  of \<open>/data/srv-10/x\<close>: the request \<open>../srv-10/x\<close> is cleaned to \<open>/data/srv-10/x\<close>,
  which is not inside the root, and \<open>SafePath\<close> returns it as a valid path. So it does
  for \<open>../srv-10/y\<close>, a file yet to be created in the sibling.
\<close>

theorem SafePath_sibling_prefix:
  "Path (srv 0) = ''/data/srv-1''
   \<and> filepath_Clean (filepath_Join [Path (srv 0), ''../srv-10/x'']) = ''/data/srv-10/x''
   \<and> EvalSymlinks sibling_os ''/data/srv-10/x'' = Inr ''/data/srv-10/x''
   \<and> \<not> is_descendant (Path (srv 0)) ''/data/srv-10/x''
   \<and> SafePath sibling_os (srv 0) ''../srv-10/x'' = Inr ''/data/srv-10/x''
   \<and> EvalSymlinks sibling_os ''/data/srv-10/y'' = Inl ErrNotExist
   \<and> SafePath sibling_os (srv 0) ''../srv-10/y'' = Inr ''/data/srv-10/y''"
  by (simp add: eval_simps sibling_os_def is_descendant_def)

text \<open>
  C3, as stated: whenever the final component of the candidate \<open>R\<close> does not exist and
  the deepest existing ancestor resolves inside the confined root, \<open>SafePath\<close> returns
  \<open>R\<close>. This fails where the ancestor's own name lies outside the root's string span:
  \<open>../other/x\<close> is cleaned to \<open>/data/other/x\<close>, which does not exist; its parent
  \<open>/data/other\<close> is a link to \<open>/data/srv-1/foo\<close> inside the root; the loop breaks on
  \<open>/data/other\<close> before resolving it, and the path is rejected.
\<close>

theorem SafePath_new_leaf_counterexample:
  "filepath_Clean (filepath_Join [Path (srv 0), ''../other/x'']) = ''/data/other/x''
   \<and> EvalSymlinks link_os ''/data/other/x'' = Inl ErrNotExist
   \<and> filepath_Dir ''/data/other/x'' = ''/data/other''
   \<and> EvalSymlinks link_os ''/data/other'' = Inr ''/data/srv-1/foo''
   \<and> is_descendant (Path (srv 0)) ''/data/srv-1/foo''
   \<and> SafePath link_os (srv 0) ''../other/x'' = Inl InvalidPathResolution"
  by (simp add: eval_simps link_os_def is_descendant_def)

text \<open>
  C3, amended: let \<open>R\<close> be the cleaned candidate, not existing (\<open>EvalSymlinks\<close> reports
  \<open>ErrNotExist\<close>), and let round \<open>k\<close> of the walk up from \<open>R\<close>'s parent be the first
  whose candidate resolves, to \<open>t\<close>. If every candidate up to and including that one
  has the root as a string prefix, and \<open>t\<close> is a non-empty path inside the root, then
  \<open>SafePath\<close> succeeds and returns \<open>R\<close> itself, not \<open>t\<close>.
\<close>

theorem SafePath_new_leaf:
  assumes "r = filepath_Clean (filepath_Join [Path fs, p])"
    and "parts = strings_Split (filepath_Dir r) CHR ''/''"
    and "EvalSymlinks os r = Inl ErrNotExist"
    and "k < length parts"
    and "\<forall>j<k. \<exists>e. EvalSymlinks os (try_path parts j) = Inl e"
    and "\<forall>j\<le>k. strings_HasPrefix (try_path parts j) (Path fs)"
    and "EvalSymlinks os (try_path parts k) = Inr t"
    and "t \<noteq> []"
    and "is_descendant (Path fs) t"
  shows "SafePath os fs p = Inr r"
proof -
  have "walk_up os (Path fs) parts [0..<length parts] = t"
    using assms(4-7) by (rule walk_up_found)
  moreover have "strings_HasPrefix t (Path fs)"
    using assms(9) by (rule is_descendant_HasPrefix)
  ultimately show ?thesis
    using assms(1,2,3,8) by (simp add: SafePath_def Let_def os_IsNotExist_def)
qed

text \<open>
  The request \<open>ln/new/leaf\<close>: neither the leaf nor \<open>ln/new\<close> exists, \<open>ln\<close> is a link to
  \<open>/data/srv-1/foo\<close>, and the answer is the candidate through the link.
\<close>

theorem SafePath_new_leaf_witness:
  "EvalSymlinks link_os ''/data/srv-1/ln/new/leaf'' = Inl ErrNotExist
   \<and> EvalSymlinks link_os ''/data/srv-1/ln/new'' = Inl ErrNotExist
   \<and> EvalSymlinks link_os ''/data/srv-1/ln'' = Inr ''/data/srv-1/foo''
   \<and> is_descendant (Path (srv 0)) ''/data/srv-1/foo''
   \<and> SafePath link_os (srv 0) ''ln/new/leaf'' = Inr ''/data/srv-1/ln/new/leaf''"
proof -
  let ?parts = "[[], ''data'', ''srv-1'', ''ln'', ''new'']"
  have r: "''/data/srv-1/ln/new/leaf''
             = filepath_Clean (filepath_Join [Path (srv 0), ''ln/new/leaf''])"
    by (simp add: eval_simps)
  have parts: "?parts = strings_Split (filepath_Dir ''/data/srv-1/ln/new/leaf'') CHR ''/''"
    by (simp add: eval_simps)
  have e: "EvalSymlinks link_os ''/data/srv-1/ln/new/leaf'' = Inl ErrNotExist"
    by (simp add: eval_simps link_os_def)
  have k: "(1::nat) < length ?parts" by simp
  have below: "\<forall>j<1. \<exists>e. EvalSymlinks link_os (try_path ?parts j) = Inl e"
    by (simp add: eval_simps link_os_def)
  have span: "\<forall>j\<le>1. strings_HasPrefix (try_path ?parts j) (Path (srv 0))"
    by (simp add: eval_simps link_os_def le_Suc_eq)
  have found: "EvalSymlinks link_os (try_path ?parts 1) = Inr ''/data/srv-1/foo''"
    by (simp add: eval_simps link_os_def)
  have ne: "''/data/srv-1/foo'' \<noteq> []" by simp
  have d: "is_descendant (Path (srv 0)) ''/data/srv-1/foo''"
    by (simp add: is_descendant_def eval_simps)
  have "SafePath link_os (srv 0) ''ln/new/leaf'' = Inr ''/data/srv-1/ln/new/leaf''"
    using SafePath_new_leaf [OF r parts e k below span found ne d] .
  with e found d show ?thesis by (simp add: eval_simps link_os_def)
qed

section \<open>Properties of the directory size\<close>

text \<open>
  C4. The partial sizes of the goroutines are to be added to the shared total through an
  atomic or synchronised operation, never by an unsynchronised read-modify-write. The
  code adds with \<open>size += s\<close> inside the goroutine (and \<open>size += f.Size()\<close> in the loop),
  a read and a write with nothing between them to keep another thread out, so the total
  depends on the schedule. Two subdirectories of one byte each give 2 when nothing is
  interrupted and 1 when both goroutines read before either writes; under \<open>/data/srv-1\<close>,
  a subdirectory listed before a file of 10 bytes gives 10 or, when the goroutine reads
  before the loop adds the file and writes after it, 0.
\<close>

theorem DirectorySize_unsynchronized_add:
  "ReadDir twin_os ''/'' = Inr [entry_d1, entry_d2]
   \<and> DirectorySize 2 sequential twin_os (srv_root 0) ''/d1'' = Some (Inr 1)
   \<and> DirectorySize 2 sequential twin_os (srv_root 0) ''/d2'' = Some (Inr 1)
   \<and> DirectorySize 3 sequential twin_os (srv_root 0) ''/'' = Some (Inr 2)
   \<and> DirectorySize 3 lost_update twin_os (srv_root 0) ''/'' = Some (Inr 1)
   \<and> DirectorySize 2 sequential race_os (srv 0) ''/'' = Some (Inr 10)
   \<and> DirectorySize 2 stale_write race_os (srv 0) ''/'' = Some (Inr 0)"
  by (simp add: eval_simps twin_os_def race_os_def srv_root_def entry_d1_def entry_d2_def
      sequential_def lost_update_def stale_write_def numeral_2_eq_2 numeral_3_eq_3)

text \<open>
  C6. \<open>DirectorySize\<close> is to return an error only when the resolution or the listing of
  the top-level directory fails; a failure inside a subdirectory is to be swallowed, the
  subdirectory contributing exactly 0, and the walk is still to succeed. The first and
  the last hold under every schedule (\<open>DirectorySize_error_surface\<close>,
  \<open>DirectorySize_total_returned\<close>). The contribution is not always 0: the goroutine of
  the failing subdirectory adds 0 with the same unguarded \<open>size += s\<close> (the defect of
  C4), so it writes back the value it read, and what other threads added in between is
  lost. Under \<open>/\<close>, with \<open>a\<close> of 10 bytes, the unreadable \<open>priv\<close> and \<open>pub\<close> of 20
  bytes, the total is 30 when nothing is interrupted and 10 when the goroutine of \<open>priv\<close>
  reads before, and writes after, the goroutine of \<open>pub\<close> has added its 20. Under
  \<open>/data/srv-1\<close>, with the directory \<open>a\<close>, whose walk fails, listed before the file
  \<open>b\<close> of 10 bytes, the total is 10 or 0.
\<close>

theorem DirectorySize_failed_subdir_stale_write:
  "ReadDir priv_os ''/'' = Inr [entry_a, entry_priv, entry_pub]
   \<and> DirectorySize 2 sequential priv_os (srv_root 0) (filepath_Join [''/'', Name entry_priv])
       = Some (Inl ErrPermission)
   \<and> DirectorySize 2 sequential priv_os (srv_root 0) (filepath_Join [''/'', Name entry_pub])
       = Some (Inr 20)
   \<and> DirectorySize 3 sequential priv_os (srv_root 0) ''/'' = Some (Inr 30)
   \<and> DirectorySize 3 stale_write_late priv_os (srv_root 0) ''/'' = Some (Inr 10)
   \<and> DirectorySize 1 sequential race_os (srv 0) ''/data/srv-1/a'' = Some (Inl ErrNotExist)
   \<and> DirectorySize 2 sequential race_os (srv 0) ''/'' = Some (Inr 10)
   \<and> DirectorySize 2 stale_write race_os (srv 0) ''/'' = Some (Inr 0)"
  by (simp add: eval_simps priv_os_def race_os_def srv_root_def entry_a_def entry_priv_def
      entry_pub_def sequential_def stale_write_def stale_write_late_def
      numeral_2_eq_2 numeral_3_eq_3)

text \<open>
  C7. The size of a tree is to be the sum of its regular files at every level: 60 for
  files of 10, 20 and 30 bytes on two levels. \<open>DirectorySize\<close> hands the subdirectory to
  itself as \<open>filepath.Join(cleaned, f.Name())\<close>, a path that already starts with the
  root, and \<open>SafePath\<close> joins the root in front of it once more. Under \<open>/data/srv-1\<close>
  the walk of \<open>sub\<close> therefore lists \<open>/data/srv-1/data/srv-1/sub\<close>, which does not
  exist, its error is dropped, and the total is the 10 bytes of the top level, under
  every schedule and with any fuel that lets the walk return.
\<close>

theorem DirectorySize_nested_dropped:
  "ReadDir tree_os ''/data/srv-1/sub''
     = Inr [\<lparr>Name = ''f20'', IsDir = False, Size = 20\<rparr>, \<lparr>Name = ''f30'', IsDir = False, Size = 30\<rparr>]
   \<and> SafePath tree_os (srv 0) ''/data/srv-1/sub'' = Inr ''/data/srv-1/data/srv-1/sub''
   \<and> DirectorySize (Suc n) sc' tree_os (srv 0) ''/data/srv-1/sub'' = Some (Inl ErrNotExist)
   \<and> DirectorySize (Suc (Suc n)) sc tree_os (srv 0) ''/'' = Some (Inr 10)"
proof -
  have "DirectorySize (Suc (Suc n)) sc tree_os (srv 0) ''/'' = Some (Inr 10)"
    by (rule tree_walk)
  moreover have "ReadDir tree_os ''/data/srv-1/sub''
     = Inr [\<lparr>Name = ''f20'', IsDir = False, Size = 20\<rparr>, \<lparr>Name = ''f30'', IsDir = False, Size = 30\<rparr>]
   \<and> SafePath tree_os (srv 0) ''/data/srv-1/sub'' = Inr ''/data/srv-1/data/srv-1/sub''
   \<and> DirectorySize (Suc n) sc' tree_os (srv 0) ''/data/srv-1/sub'' = Some (Inl ErrNotExist)"
    by (simp add: eval_simps tree_os_def)
  ultimately show ?thesis by blast
qed

section \<open>Properties of the quota check\<close>

text \<open>
  C2. With a positive quota, no cached size and a walk that returns \<open>S\<close> bytes, the answer
  is to be whether \<open>S\<close> in MiB is within the quota. The code stores \<open>S\<close> for five
  minutes, but \<open>S\<close> is bound to a \<open>size\<close> of the \<open>if\<close> statement alone and the
  \<open>return\<close> compares the outer \<open>size\<close>, which is 0: with a quota of 1 MiB and a file of
  3 MiB the answer is \<open>True\<close>, under every schedule.
\<close>

theorem HasSpaceAvailable_miss_over_quota:
  "cache_Get (cache st_empty) 0 ''disk_used'' = None
   \<and> DirectorySize 1 sc big_os (srv 1) ''/'' = Some (Inr 3145728)
   \<and> \<not> (int64_div (int64_div 3145728 1024) 1024 \<le>s DiskSpace (Build (Server (srv 1))))
   \<and> HasSpaceAvailable 1 sc big_os (srv 1) 0 st_empty = Some (True, st_big)"
proof -
  have q: "0 <s DiskSpace (Build (Server (srv 1)))"
    by (simp add: srv_def word_sless_alt)
  have m: "cache_Get (cache st_empty) 0 ''disk_used'' = None"
    by (simp add: st_empty_def cache_Get_def)
  have w: "DirectorySize 1 sc big_os (srv 1) ''/'' = Some (Inr 3145728)"
    using big_walk [of 0 sc 1] by (simp only: One_nat_def)
  have n: "\<not> (int64_div (int64_div 3145728 1024) 1024 \<le>s DiskSpace (Build (Server (srv 1))))"
    by (simp add: quota_simps srv_def)
  have e: "st_empty\<lparr>cache := cache_Set (cache st_empty) 0 ''disk_used'' 3145728
                               (time_Minute * 5)\<rparr> = st_big"
    by (simp add: st_empty_def st_big_def cache_Set_def time_Minute_def)
  have "HasSpaceAvailable 1 sc big_os (srv 1) 0 st_empty = Some (True, st_big)"
    using HasSpaceAvailable_walk [OF q, of st_empty 0 1 sc big_os] m
    by (simp only: w e option.case sum.case simp_thms)
  with m w n show ?thesis by blast
qed

text \<open>
  C5, as stated: whenever an unexpired entry with value \<open>v\<close> is cached, the answer is
  given from \<open>v\<close> without walking the directory. This fails for \<open>v = 0\<close>, which the
  code takes for an absent entry: with an unexpired entry of 0 the call does not return
  without fuel for the walk, and with fuel it replaces the entry by the walk's 10 bytes.
\<close>

theorem HasSpaceAvailable_zero_counterexample:
  "0 <s DiskSpace (Build (Server (srv 1)))
   \<and> cache_Get (cache st_zero) 500 ''disk_used'' = Some 0
   \<and> HasSpaceAvailable 0 sequential tree_os (srv 1) 500 st_zero = None
   \<and> HasSpaceAvailable 2 sequential tree_os (srv 1) 500 st_zero = Some (True, st_rewalked)
   \<and> st_rewalked \<noteq> st_zero"
proof -
  have "cache st_rewalked ''disk_used'' \<noteq> cache st_zero ''disk_used''"
    by (simp add: st_rewalked_def st_zero_def)
  then have "st_rewalked \<noteq> st_zero" by auto
  then show ?thesis
    by (simp add: eval_simps quota_simps tree_os_def st_zero_def st_rewalked_def sequential_def
        numeral_2_eq_2)
qed

text \<open>
  C5, amended: with a positive quota, whenever an unexpired entry with a value \<open>v\<close>
  other than 0 is cached, the answer is whether \<open>v\<close> in MiB is within the quota, for
  every operating system, every schedule and every fuel, and the state is left as it
  was: the directory is not walked. In particular, a non-zero \<open>v\<close> stored at \<open>t0\<close> with
  the TTL of five minutes is answered from at \<open>t0\<close> plus four minutes; at \<open>t0\<close> plus six
  minutes the directory is walked again and a successful walk replaces the entry, with a
  TTL of five minutes from then.
\<close>

theorem HasSpaceAvailable_cache_reuse:
  assumes "0 <s DiskSpace (Build (Server fs))" and "v \<noteq> 0"
  shows "(cache_Get (cache st) now ''disk_used'' = Some v \<longrightarrow>
            HasSpaceAvailable fuel sc os fs now st =
              Some (int64_div (int64_div v 1024) 1024 \<le>s DiskSpace (Build (Server fs)), st))
       \<and> (st1 = st0\<lparr>cache := cache_Set (cache st0) t0 ''disk_used'' v (time_Minute * 5)\<rparr> \<longrightarrow>
            HasSpaceAvailable fuel sc os fs (t0 + 4 * time_Minute) st1 =
              Some (int64_div (int64_div v 1024) 1024 \<le>s DiskSpace (Build (Server fs)), st1)
          \<and> map_option snd (HasSpaceAvailable fuel sc os fs (t0 + 6 * time_Minute) st1) =
              (case DirectorySize fuel sc os fs ''/'' of
                 None \<Rightarrow> None
               | Some (Inl err) \<Rightarrow>
                   Some (st1\<lparr>warnings := warnings st1 @
                           [(''failed to determine directory size'', Uuid (Server fs), err)]\<rparr>)
               | Some (Inr s) \<Rightarrow>
                   Some (st1\<lparr>cache := cache_Set (cache st1) (t0 + 6 * time_Minute)
                                          ''disk_used'' s (time_Minute * 5)\<rparr>)))"
proof (intro conjI impI)
  assume "cache_Get (cache st) now ''disk_used'' = Some v"
  then show "HasSpaceAvailable fuel sc os fs now st =
      Some (int64_div (int64_div v 1024) 1024 \<le>s DiskSpace (Build (Server fs)), st)"
    using assms by (simp add: HasSpaceAvailable_hit)
next
  assume s: "st1 = st0\<lparr>cache := cache_Set (cache st0) t0 ''disk_used'' v (time_Minute * 5)\<rparr>"
  then have "cache_Get (cache st1) (t0 + 4 * time_Minute) ''disk_used'' = Some v"
    by (simp add: cache_Get_def cache_Set_def time_Minute_def)
  then show "HasSpaceAvailable fuel sc os fs (t0 + 4 * time_Minute) st1 =
      Some (int64_div (int64_div v 1024) 1024 \<le>s DiskSpace (Build (Server fs)), st1)"
    using assms by (simp add: HasSpaceAvailable_hit)
next
  assume s: "st1 = st0\<lparr>cache := cache_Set (cache st0) t0 ''disk_used'' v (time_Minute * 5)\<rparr>"
  then have "cache_Get (cache st1) (t0 + 6 * time_Minute) ''disk_used'' = None"
    by (simp add: cache_Get_def cache_Set_def time_Minute_def)
  then show "map_option snd (HasSpaceAvailable fuel sc os fs (t0 + 6 * time_Minute) st1) =
              (case DirectorySize fuel sc os fs ''/'' of
                 None \<Rightarrow> None
               | Some (Inl err) \<Rightarrow>
                   Some (st1\<lparr>warnings := warnings st1 @
                           [(''failed to determine directory size'', Uuid (Server fs), err)]\<rparr>)
               | Some (Inr s) \<Rightarrow>
                   Some (st1\<lparr>cache := cache_Set (cache st1) (t0 + 6 * time_Minute)
                                          ''disk_used'' s (time_Minute * 5)\<rparr>))"
    using assms(1) by (simp add: HasSpaceAvailable_walk split: option.splits sum.splits)
qed

text \<open>
  Ten bytes stored at time 500: answered from the cache at time 600 and four minutes
  after the write, without fuel; walked again six minutes after the write.
\<close>

theorem HasSpaceAvailable_cache_reuse_witness:
  "0 <s DiskSpace (Build (Server (srv 1)))
   \<and> cache_Get (cache st_rewalked) 600 ''disk_used'' = Some 10
   \<and> HasSpaceAvailable 0 sequential tree_os (srv 1) 600 st_rewalked = Some (True, st_rewalked)
   \<and> HasSpaceAvailable 0 sequential tree_os (srv 1) (500 + 4 * time_Minute) st_rewalked
       = Some (True, st_rewalked)
   \<and> DirectorySize 2 sequential tree_os (srv 1) ''/'' = Some (Inr 10)
   \<and> map_option snd
        (HasSpaceAvailable 2 sequential tree_os (srv 1) (500 + 6 * time_Minute) st_rewalked)
       = Some st_recomputed"
proof -
  have q: "0 <s DiskSpace (Build (Server (srv 1)))"
    by (simp add: srv_def word_sless_alt)
  have v: "(10 :: int64) \<noteq> 0" by simp
  have c: "cache_Get (cache st_rewalked) 600 ''disk_used'' = Some 10"
    by (simp add: st_rewalked_def cache_Get_def)
  have s: "st_rewalked =
      st_empty\<lparr>cache := cache_Set (cache st_empty) 500 ''disk_used'' 10 (time_Minute * 5)\<rparr>"
    by (simp add: st_rewalked_def st_empty_def cache_Set_def time_Minute_def)
  have w: "DirectorySize 2 sequential tree_os (srv 1) ''/'' = Some (Inr 10)"
    using tree_walk [of 0 sequential 1] by (simp only: numeral_2_eq_2)
  have m: "int64_div (int64_div 10 1024) 1024 \<le>s DiskSpace (Build (Server (srv 1)))"
    by (simp add: quota_simps srv_def)
  have r: "st_rewalked\<lparr>cache := cache_Set (cache st_rewalked) (500 + 6 * time_Minute)
                                    ''disk_used'' 10 (time_Minute * 5)\<rparr> = st_recomputed"
    by (simp add: st_rewalked_def st_recomputed_def cache_Set_def time_Minute_def)
  note t = HasSpaceAvailable_cache_reuse [OF q v,
      of st_rewalked 600 0 sequential tree_os st_rewalked st_empty 500]
  note t2 = HasSpaceAvailable_cache_reuse [OF q v,
      of st_rewalked 600 2 sequential tree_os st_rewalked st_empty 500]
  have a: "HasSpaceAvailable 0 sequential tree_os (srv 1) 600 st_rewalked
             = Some (True, st_rewalked)"
    using t c m by simp
  have b: "HasSpaceAvailable 0 sequential tree_os (srv 1) (500 + 4 * time_Minute) st_rewalked
       = Some (True, st_rewalked)"
    using t s m by simp
  have d: "map_option snd
        (HasSpaceAvailable 2 sequential tree_os (srv 1) (500 + 6 * time_Minute) st_rewalked)
       = Some st_recomputed"
    using t2 s by (simp only: w r option.case sum.case simp_thms)
  from q c a b w d show ?thesis by blast
qed

text \<open>
  C8. With a quota of 0 or less the answer is \<open>True\<close> for every state, operating system,
  schedule and fuel, and the state is left as it was: neither the cache nor the directory
  is consulted.
\<close>

theorem HasSpaceAvailable_unlimited:
  "DiskSpace (Build (Server fs)) \<le>s 0 \<Longrightarrow>
   HasSpaceAvailable fuel sc os fs now st = Some (True, st)"
  by (simp add: HasSpaceAvailable_def)

theorem HasSpaceAvailable_unlimited_witness:
  "DiskSpace (Build (Server (srv (- 1)))) \<le>s 0
   \<and> HasSpaceAvailable 0 sequential big_os (srv (- 1)) 0 st_big = Some (True, st_big)"
proof -
  have h: "DiskSpace (Build (Server (srv (- 1)))) \<le>s 0"
    by (simp add: srv_def word_sle_eq)
  show ?thesis
    using h HasSpaceAvailable_unlimited [OF h, of 0 sequential big_os 0 st_big] by simp
qed

text \<open>
  C9. \<open>HasSpaceAvailable\<close> has no error result: whenever the walk of the directory
  returns, with a size or with an error, the call returns an answer. With a positive
  quota and no cached size, a walk that fails leaves the cache as it was, logs one
  warning with the error, and the answer is \<open>True\<close>.
\<close>

theorem HasSpaceAvailable_soft_fail:
  "(DirectorySize fuel sc os fs ''/'' \<noteq> None \<longrightarrow>
      (\<exists>b st'. HasSpaceAvailable fuel sc os fs now st = Some (b, st')))
   \<and> (0 <s DiskSpace (Build (Server fs))
        \<and> cache_Get (cache st) now ''disk_used'' = None
        \<and> DirectorySize fuel sc os fs ''/'' = Some (Inl err) \<longrightarrow>
      HasSpaceAvailable fuel sc os fs now st =
        Some (True, st\<lparr>warnings := warnings st @
                [(''failed to determine directory size'', Uuid (Server fs), err)]\<rparr>))"
proof (intro conjI impI)
  assume "DirectorySize fuel sc os fs ''/'' \<noteq> None"
  then obtain res where "DirectorySize fuel sc os fs ''/'' = Some res" by auto
  then show "\<exists>b st'. HasSpaceAvailable fuel sc os fs now st = Some (b, st')"
    by (cases res) (auto simp: HasSpaceAvailable_def Let_def)
next
  assume "0 <s DiskSpace (Build (Server fs))
        \<and> cache_Get (cache st) now ''disk_used'' = None
        \<and> DirectorySize fuel sc os fs ''/'' = Some (Inl err)"
  then show "HasSpaceAvailable fuel sc os fs now st =
        Some (True, st\<lparr>warnings := warnings st @
                [(''failed to determine directory size'', Uuid (Server fs), err)]\<rparr>)"
    by (simp add: HasSpaceAvailable_walk)
qed

text \<open>A server directory whose listing is refused: one warning, and the answer \<open>True\<close>.\<close>

theorem HasSpaceAvailable_soft_fail_witness:
  "0 <s DiskSpace (Build (Server (srv 1)))
   \<and> cache_Get (cache st_empty) 0 ''disk_used'' = None
   \<and> DirectorySize 1 sequential denied_os (srv 1) ''/'' = Some (Inl ErrPermission)
   \<and> DirectorySize 1 sequential denied_os (srv 1) ''/'' \<noteq> None
   \<and> HasSpaceAvailable 1 sequential denied_os (srv 1) 0 st_empty = Some (True, st_warned)"
proof -
  have q: "0 <s DiskSpace (Build (Server (srv 1)))"
    by (simp add: srv_def word_sless_alt)
  have m: "cache_Get (cache st_empty) 0 ''disk_used'' = None"
    by (simp add: st_empty_def cache_Get_def)
  have w: "DirectorySize 1 sequential denied_os (srv 1) ''/'' = Some (Inl ErrPermission)"
    by (simp add: eval_simps denied_os_def)
  have e: "st_empty\<lparr>warnings := warnings st_empty @
             [(''failed to determine directory size'', Uuid (Server (srv 1)), ErrPermission)]\<rparr>
           = st_warned"
    by (simp add: st_empty_def st_warned_def srv_def)
  have "HasSpaceAvailable 1 sequential denied_os (srv 1) 0 st_empty = Some (True, st_warned)"
    using q m w e
      HasSpaceAvailable_soft_fail [of 1 sequential denied_os "srv 1" 0 st_empty ErrPermission]
    by (simp del: DirectorySize.simps)
  with q m w show ?thesis by simp
qed




end
